theory Spec2Isabelle
  imports Complex_Main
begin

section \<open>Values received by the endpoints\<close>

text \<open>
  The ingestion endpoint reads its body with \<^verbatim>\<open>json.loads\<close>; the result is a tree of
  Python dicts, lists, strings, numbers, booleans and \<^verbatim>\<open>None\<close>. Numbers (Python's int and
  float) are modelled as exact rationals: rounding of binary floating point is not modelled.
  A dict is an association list read with \<open>map_of\<close>.
\<close>

datatype json =
    JNull
  | JBool bool
  | JNum rat
  | JStr string
  | JArr "json list"
  | JObj "(string \<times> json) list"

type_synonym pydict = "(string \<times> json) list"

datatype py_error =
    ValueError
  | TypeError
  | AttributeError
  | ZeroDivisionError
  | ValidationError
  | StorageError
  | HTTPException nat

definition dict_get :: "pydict \<Rightarrow> string \<Rightarrow> json \<Rightarrow> json" where
  \<comment> \<open>\<^verbatim>\<open>d.get(k, default)\<close>\<close>
  "dict_get d k dflt = (case map_of d k of None \<Rightarrow> dflt | Some v \<Rightarrow> v)"

definition dict_has :: "pydict \<Rightarrow> string \<Rightarrow> bool" where
  \<comment> \<open>\<^verbatim>\<open>k in d\<close>\<close>
  "dict_has d k = (map_of d k \<noteq> None)"

section \<open>Instants\<close>

text \<open>
  A Python \<^verbatim>\<open>datetime\<close> is kept as its wall-clock reading in microseconds since
  1970-01-01 00:00:00 on its own clock, and its UTC offset in microseconds when it carries one
  (an aware datetime) or \<open>None\<close> (a naive one).
\<close>

record datetime =
  local_us :: int
  utcoffset :: "int option"

definition is_leap :: "int \<Rightarrow> bool" where
  "is_leap y = (y mod 4 = 0 \<and> (y mod 100 \<noteq> 0 \<or> y mod 400 = 0))"

definition days_in_month :: "int \<Rightarrow> int \<Rightarrow> int" where
  "days_in_month y m =
     (if m = 2 then (if is_leap y then 29 else 28)
      else if m = 4 \<or> m = 6 \<or> m = 9 \<or> m = 11 then 30 else 31)"

definition days_from_civil :: "int \<Rightarrow> int \<Rightarrow> int \<Rightarrow> int" where
  \<comment> \<open>days from 1970-01-01 to the given date of the proleptic Gregorian calendar\<close>
  "days_from_civil y m d =
     (let y' = (if m \<le> 2 then y - 1 else y);
          era = y' div 400;
          yoe = y' - era * 400;
          doy = (153 * (if m > 2 then m - 3 else m + 9) + 2) div 5 + d - 1;
          doe = yoe * 365 + yoe div 4 - yoe div 100 + doy
      in era * 146097 + doe - 719468)"

definition mk_datetime ::
  "int \<Rightarrow> int \<Rightarrow> int \<Rightarrow> int \<Rightarrow> int \<Rightarrow> int \<Rightarrow> int \<Rightarrow> int option \<Rightarrow> py_error + datetime" where
  \<comment> \<open>the \<^verbatim>\<open>datetime(...)\<close> constructor with its range checks; the offset in microseconds
      must lie strictly within one day, as \<^verbatim>\<open>timezone(...)\<close> demands\<close>
  "mk_datetime y m d hh mi ss us tz =
     (if 1 \<le> y \<and> y \<le> 9999 \<and> 1 \<le> m \<and> m \<le> 12 \<and> 1 \<le> d \<and> d \<le> days_in_month y m
         \<and> 0 \<le> hh \<and> hh \<le> 23 \<and> 0 \<le> mi \<and> mi \<le> 59 \<and> 0 \<le> ss \<and> ss \<le> 59
         \<and> 0 \<le> us \<and> us \<le> 999999
         \<and> (case tz of None \<Rightarrow> True | Some off \<Rightarrow> - 86400000000 < off \<and> off < 86400000000)
      then Inr \<lparr>local_us =
                  ((days_from_civil y m d * 86400 + hh * 3600 + mi * 60 + ss) * 1000000 + us),
                utcoffset = tz\<rparr>
      else Inl ValueError)"

definition utc_us :: "datetime \<Rightarrow> int" where
  \<comment> \<open>the instant of an aware datetime, in microseconds since the epoch\<close>
  "utc_us t = local_us t - (case utcoffset t of None \<Rightarrow> 0 | Some off \<Rightarrow> off)"

definition dt_sub :: "datetime \<Rightarrow> datetime \<Rightarrow> py_error + int" where
  \<comment> \<open>\<^verbatim>\<open>a - b\<close>, a timedelta in microseconds; Python raises TypeError when one operand is
      naive and the other aware\<close>
  "dt_sub a b =
     (case (utcoffset a, utcoffset b) of
        (None, None) \<Rightarrow> Inr (local_us a - local_us b)
      | (Some _, Some _) \<Rightarrow> Inr (utc_us a - utc_us b)
      | _ \<Rightarrow> Inl TypeError)"


definition same_instant :: "datetime \<Rightarrow> datetime \<Rightarrow> bool" where
  \<comment> \<open>\<^verbatim>\<open>a == b\<close>: aware datetimes are equal when they denote the same instant, naive ones
      when their readings agree, and a naive one never equals an aware one\<close>
  "same_instant a b = (dt_sub a b = Inr 0)"

definition total_seconds :: "int \<Rightarrow> rat" where
  \<comment> \<open>\<^verbatim>\<open>timedelta.total_seconds()\<close>\<close>
  "total_seconds td = of_int td / 1000000"

definition py_int :: "rat \<Rightarrow> int" where
  \<comment> \<open>\<^verbatim>\<open>int(x)\<close> of a float: truncation toward zero\<close>
  "py_int x = (if x \<ge> 0 then \<lfloor>x\<rfloor> else \<lceil>x\<rceil>)"

section \<open>Timestamp normalisation\<close>

definition digit_val :: "char \<Rightarrow> nat option" where
  "digit_val c =
     (let n = (of_char c :: nat) in if 48 \<le> n \<and> n \<le> 57 then Some (n - 48) else None)"

fun digits_acc :: "int \<Rightarrow> string \<Rightarrow> int option" where
  "digits_acc acc [] = Some acc"
| "digits_acc acc (c # cs) =
     (case digit_val c of None \<Rightarrow> None | Some v \<Rightarrow> digits_acc (acc * 10 + int v) cs)"

definition digits :: "nat \<Rightarrow> string \<Rightarrow> int option" where
  \<comment> \<open>the value of a field of exactly \<open>n\<close> decimal digits\<close>
  "digits n s = (if length s = n \<and> n > 0 then digits_acc 0 s else None)"

definition field :: "nat \<Rightarrow> nat \<Rightarrow> string \<Rightarrow> int option" where
  \<comment> \<open>\<open>n\<close> digits starting at position \<open>i\<close>\<close>
  "field i n s = digits n (take n (drop i s))"

definition char_at :: "string \<Rightarrow> nat \<Rightarrow> char option" where
  "char_at s i = (if i < length s then Some (s ! i) else None)"

definition sign_of :: "char option \<Rightarrow> int option" where
  "sign_of c =
     (if c = Some (CHR ''+'') then Some 1 else if c = Some (CHR ''-'') then Some (- 1) else None)"

text \<open>
  \<^verbatim>\<open>strptime\<close> turns its format into a regular expression and matches it against the
  whole string. For \<^verbatim>\<open>%Y-%m-%d %H:%M:%S %z\<close> that is: four digits; month, day, hour, minute
  and second of one or two digits each, within their ranges; one or more white-space
  characters where the format has a space; and an offset. Each field is followed in the format
  by a character that is not a digit, so a field is the whole run of digits found there.
  Digits and white space are the ASCII ones.
\<close>

definition is_digit :: "char \<Rightarrow> bool" where
  "is_digit c = (digit_val c \<noteq> None)"

definition is_space :: "char \<Rightarrow> bool" where
  \<comment> \<open>the ASCII characters that \<^verbatim>\<open>\s\<close> matches\<close>
  "is_space c = (let n = (of_char c :: nat) in n = 32 \<or> (9 \<le> n \<and> n \<le> 13) \<or> (28 \<le> n \<and> n \<le> 31))"

definition lit :: "char \<Rightarrow> string \<Rightarrow> string option" where
  \<comment> \<open>a literal character of the format\<close>
  "lit c s = (case s of x # rest \<Rightarrow> if x = c then Some rest else None | [] \<Rightarrow> None)"

definition spaces :: "string \<Rightarrow> string option" where
  \<comment> \<open>white space in the format: one or more white-space characters\<close>
  "spaces s = (case s of x # rest \<Rightarrow> if is_space x then Some (dropWhile is_space rest) else None
               | [] \<Rightarrow> None)"

definition fixed :: "nat \<Rightarrow> string \<Rightarrow> (int \<times> string) option" where
  \<comment> \<open>exactly \<open>n\<close> digits\<close>
  "fixed n s = (case digits n (take n s) of Some v \<Rightarrow> Some (v, drop n s) | None \<Rightarrow> None)"

definition upto2 :: "int \<Rightarrow> int \<Rightarrow> string \<Rightarrow> (int \<times> string) option" where
  \<comment> \<open>a field of one or two digits with a value between \<open>lo\<close> and \<open>hi\<close>; the character
      after it in the format is not a digit, so the field is the whole run of digits\<close>
  "upto2 lo hi s =
     (let ds = takeWhile is_digit s in
      case digits (length ds) ds of
        Some v \<Rightarrow> if length ds \<le> 2 \<and> lo \<le> v \<and> v \<le> hi then Some (v, dropWhile is_digit s) else None
      | None \<Rightarrow> None)"

definition day_field :: "string \<Rightarrow> (int \<times> string) option" where
  \<comment> \<open>\<^verbatim>\<open>%d\<close>: also a space followed by one digit from 1 to 9\<close>
  "day_field s =
     (case s of
        x # y # rest \<Rightarrow>
          if x = CHR '' '' then
            (case digit_val y of Some v \<Rightarrow> if v \<ge> 1 then Some (int v, rest) else None
             | None \<Rightarrow> None)
          else upto2 1 31 s
      | _ \<Rightarrow> upto2 1 31 s)"

definition opt_colon :: "string \<Rightarrow> bool \<times> string" where
  "opt_colon s = (case s of x # rest \<Rightarrow> if x = CHR '':'' then (True, rest) else (False, s)
                  | [] \<Rightarrow> (False, s))"

definition tz_fraction :: "string \<Rightarrow> int option" where
  \<comment> \<open>\<^verbatim>\<open>(\.\d{1,6})?\<close> at the end of the offset, padded to microseconds\<close>
  "tz_fraction s =
     (case s of
        [] \<Rightarrow> Some 0
      | x # ds \<Rightarrow>
          if x = CHR ''.'' \<and> 1 \<le> length ds \<and> length ds \<le> 6
          then digits 6 (ds @ replicate (6 - length ds) (CHR ''0''))
          else None)"

definition tz_offset :: "string \<Rightarrow> int option" where
  \<comment> \<open>\<^verbatim>\<open>%z\<close>: \<^verbatim>\<open>Z\<close>, or a sign, hours, minutes and optionally seconds with a fraction,
      the colons either all there or all missing; the offset in microseconds\<close>
  "tz_offset s =
     (if s = ''Z'' then Some 0
      else
      (case sign_of (char_at s 0) of None \<Rightarrow> None | Some sg \<Rightarrow>
      (case fixed 2 (drop 1 s) of None \<Rightarrow> None | Some (oh, r1) \<Rightarrow>
      (case fixed 2 (snd (opt_colon r1)) of None \<Rightarrow> None | Some (om, r3) \<Rightarrow>
        if om > 59 then None
        else if r3 = [] then Some (sg * ((oh * 3600 + om * 60) * 1000000))
        else
          (case fixed 2 (snd (opt_colon r3)) of None \<Rightarrow> None | Some (os, r5) \<Rightarrow>
          (case tz_fraction r5 of None \<Rightarrow> None | Some f \<Rightarrow>
            if os > 59 \<or> fst (opt_colon r1) \<noteq> fst (opt_colon r3) then None
            else Some (sg * ((oh * 3600 + om * 60 + os) * 1000000 + f))))))))"

definition strptime_swift :: "string \<Rightarrow> py_error + datetime" where
  \<comment> \<open>\<^verbatim>\<open>datetime.strptime(v, "%Y-%m-%d %H:%M:%S %z")\<close>: the format matched against the
      whole string, field by field, then the \<^verbatim>\<open>datetime\<close> built from the fields\<close>
  "strptime_swift s =
     (case fixed 4 s of None \<Rightarrow> Inl ValueError | Some (y, s1) \<Rightarrow>
     (case lit (CHR ''-'') s1 of None \<Rightarrow> Inl ValueError | Some s2 \<Rightarrow>
     (case upto2 1 12 s2 of None \<Rightarrow> Inl ValueError | Some (m, s3) \<Rightarrow>
     (case lit (CHR ''-'') s3 of None \<Rightarrow> Inl ValueError | Some s4 \<Rightarrow>
     (case day_field s4 of None \<Rightarrow> Inl ValueError | Some (d, s5) \<Rightarrow>
     (case spaces s5 of None \<Rightarrow> Inl ValueError | Some s6 \<Rightarrow>
     (case upto2 0 23 s6 of None \<Rightarrow> Inl ValueError | Some (hh, s7) \<Rightarrow>
     (case lit (CHR '':'') s7 of None \<Rightarrow> Inl ValueError | Some s8 \<Rightarrow>
     (case upto2 0 59 s8 of None \<Rightarrow> Inl ValueError | Some (mi, s9) \<Rightarrow>
     (case lit (CHR '':'') s9 of None \<Rightarrow> Inl ValueError | Some s10 \<Rightarrow>
     (case upto2 0 61 s10 of None \<Rightarrow> Inl ValueError | Some (ss, s11) \<Rightarrow>
     (case spaces s11 of None \<Rightarrow> Inl ValueError | Some s12 \<Rightarrow>
     (case tz_offset s12 of None \<Rightarrow> Inl ValueError | Some off \<Rightarrow>
       mk_datetime y m d hh mi ss 0 (Some off))))))))))))))"

definition replace_Z :: "string \<Rightarrow> string" where
  \<comment> \<open>\<^verbatim>\<open>v.replace('Z', '+00:00')\<close>: every occurrence\<close>
  "replace_Z s = concat (map (\<lambda>c. if c = CHR ''Z'' then ''+00:00'' else [c]) s)"

definition parse_hh_mm_ss_ff :: "string \<Rightarrow> py_error + (int \<times> int \<times> int \<times> int)" where
  \<comment> \<open>\<^verbatim>\<open>HH[:MM[:SS[.fff[fff]]]]\<close>\<close>
  "parse_hh_mm_ss_ff s =
     (case field 0 2 s of None \<Rightarrow> Inl ValueError
      | Some hh \<Rightarrow>
          if length s = 2 then Inr (hh, 0, 0, 0)
          else if char_at s 2 \<noteq> Some (CHR '':'') then Inl ValueError
          else (case field 3 2 s of None \<Rightarrow> Inl ValueError
            | Some mi \<Rightarrow>
                if length s = 5 then Inr (hh, mi, 0, 0)
                else if char_at s 5 \<noteq> Some (CHR '':'') then Inl ValueError
                else (case field 6 2 s of None \<Rightarrow> Inl ValueError
                  | Some ss \<Rightarrow>
                      if length s = 8 then Inr (hh, mi, ss, 0)
                      else if char_at s 8 \<noteq> Some (CHR ''.'') then Inl ValueError
                      else if length s = 12 then
                        (case field 9 3 s of None \<Rightarrow> Inl ValueError
                         | Some ms \<Rightarrow> Inr (hh, mi, ss, ms * 1000))
                      else if length s = 15 then
                        (case field 9 6 s of None \<Rightarrow> Inl ValueError
                         | Some us \<Rightarrow> Inr (hh, mi, ss, us))
                      else Inl ValueError)))"

fun find_sign :: "string \<Rightarrow> nat \<Rightarrow> char \<Rightarrow> nat option" where
  \<comment> \<open>position of the first occurrence of a character, counted from \<open>i\<close>\<close>
  "find_sign [] i c = None"
| "find_sign (x # xs) i c = (if x = c then Some i else find_sign xs (Suc i) c)"

definition tz_pos :: "string \<Rightarrow> nat option" where
  \<comment> \<open>\<^verbatim>\<open>tstr.find('-') + 1 or tstr.find('+') + 1\<close>, as the position of the sign\<close>
  "tz_pos t = (case find_sign t 0 (CHR ''-'') of Some i \<Rightarrow> Some i
               | None \<Rightarrow> find_sign t 0 (CHR ''+''))"

definition parse_isoformat_time ::
  "string \<Rightarrow> py_error + ((int \<times> int \<times> int \<times> int) \<times> int option)" where
  "parse_isoformat_time t =
     (if length t < 2 then Inl ValueError
      else case tz_pos t of
        None \<Rightarrow> (case parse_hh_mm_ss_ff t of Inl e \<Rightarrow> Inl e | Inr c \<Rightarrow> Inr (c, None))
      | Some p \<Rightarrow>
          (case parse_hh_mm_ss_ff (take p t) of Inl e \<Rightarrow> Inl e
           | Inr c \<Rightarrow>
               let z = drop (Suc p) t in
               if length z \<noteq> 5 \<and> length z \<noteq> 8 \<and> length z \<noteq> 15 then Inl ValueError
               else (case parse_hh_mm_ss_ff z of Inl e \<Rightarrow> Inl e
                 | Inr (oh, om, os, ous) \<Rightarrow>
                     let sg = (if char_at t p = Some (CHR ''-'') then - 1 else 1)
                     in Inr (c, Some (sg * ((oh * 3600 + om * 60 + os) * 1000000 + ous))))))"

definition fromisoformat :: "string \<Rightarrow> py_error + datetime" where
  \<comment> \<open>\<^verbatim>\<open>datetime.fromisoformat\<close> on the grammar its documentation gives up to Python 3.10,
      \<^verbatim>\<open>YYYY-MM-DD[*HH[:MM[:SS[.fff[fff]]]][+HH:MM[:SS[.ffffff]]]]\<close>, where \<^verbatim>\<open>*\<close> is any
      single character (Python 3.11 reads further ISO-8601 spellings as well)\<close>
  "fromisoformat s =
     (if length s < 10 \<or> char_at s 4 \<noteq> Some (CHR ''-'') \<or> char_at s 7 \<noteq> Some (CHR ''-'')
      then Inl ValueError
      else case (field 0 4 s, field 5 2 s, field 8 2 s) of
        (Some y, Some m, Some d) \<Rightarrow>
          (let t = drop 11 s in
           if t = [] then mk_datetime y m d 0 0 0 0 None
           else case parse_isoformat_time t of Inl e \<Rightarrow> Inl e
             | Inr ((hh, mi, ss, us), tz) \<Rightarrow> mk_datetime y m d hh mi ss us tz)
      | _ \<Rightarrow> Inl ValueError)"

text \<open>
  The validator receives whatever the payload holds at a timestamp field, or a value that is
  a datetime already.
\<close>

datatype pyval = PJson json | PDatetime datetime

definition parse_swift_datetime :: "pyval \<Rightarrow> py_error + pyval" where
  "parse_swift_datetime v =
     (case v of
        PJson (JStr s) \<Rightarrow>
          (case strptime_swift s of
             Inr t \<Rightarrow> Inr (PDatetime t)
           | Inl _ \<Rightarrow>
               (case fromisoformat (replace_Z s) of
                  Inl e \<Rightarrow> Inl e
                | Inr t \<Rightarrow> Inr (PDatetime t)))
      | _ \<Rightarrow> Inr v)"

section \<open>Structural validation\<close>

text \<open>
  \<^verbatim>\<open>HealthAutoExportPayload(**raw_payload)\<close> validates the whole document in one call:
  a model is built only when each of its fields validates, a list only when each of its
  elements does, and the first failure anywhere surfaces as one validation error for the
  call. Scalars are accepted in their own JSON type: a float field takes a number, a string
  field a string, and a timestamp field a string that \<open>parse_swift_datetime\<close> turns into a
  datetime (numbers in timestamp fields, and booleans or numeric strings in float fields, which
  pydantic's lax mode would coerce, are refused here).
\<close>

record common_point =
  cp_date :: datetime
  cp_qty :: rat

record sleep_entry =
  se_date :: datetime
  asleep :: rat
  awake :: rat
  core :: rat
  deep :: rat
  rem :: rat
  sleepStart :: datetime
  sleepEnd :: datetime
  se_source :: string
  totalSleep :: rat

record common_metric =
  cm_name :: string
  cm_units :: string
  cm_data :: "common_point list"

record sleep_metric =
  sm_units :: string
  sm_data :: "sleep_entry list"

datatype metric = CommonM common_metric | SleepM sleep_metric

record workout =
  w_start :: "datetime option"
  w_end :: "datetime option"
  duration :: "rat option"
  workoutType :: "string option"
  location :: "string option"
  activeEnergyBurned :: "pydict option"
  activeEnergy :: "pydict list option"
  heartRateRecovery :: "pydict list option"
  heartRateData :: "pydict list option"
  intensity :: "pydict option"
  metadata :: "pydict option"
  w_source :: "string option"

record data_node =
  metrics :: "metric list"
  workouts :: "workout list"

record payload =
  pl_data :: data_node
  request_id :: "string option"

definition bind_err :: "'e + 'a \<Rightarrow> ('a \<Rightarrow> 'e + 'b) \<Rightarrow> 'e + 'b" where
  "bind_err r f = (case r of Inl e \<Rightarrow> Inl e | Inr x \<Rightarrow> f x)"

fun all_valid :: "('a \<Rightarrow> 'e + 'b) \<Rightarrow> 'a list \<Rightarrow> 'e + 'b list" where
  "all_valid f [] = Inr []"
| "all_valid f (x # xs) =
     (case f x of Inl e \<Rightarrow> Inl e
      | Inr y \<Rightarrow> (case all_valid f xs of Inl e \<Rightarrow> Inl e | Inr ys \<Rightarrow> Inr (y # ys)))"

definition val_float :: "json \<Rightarrow> py_error + rat" where
  "val_float v = (case v of JNum x \<Rightarrow> Inr x | _ \<Rightarrow> Inl ValidationError)"

definition val_str :: "json \<Rightarrow> py_error + string" where
  "val_str v = (case v of JStr s \<Rightarrow> Inr s | _ \<Rightarrow> Inl ValidationError)"

definition val_dict :: "json \<Rightarrow> py_error + pydict" where
  "val_dict v = (case v of JObj d \<Rightarrow> Inr d | _ \<Rightarrow> Inl ValidationError)"

definition val_list :: "(json \<Rightarrow> py_error + 'a) \<Rightarrow> json \<Rightarrow> py_error + 'a list" where
  "val_list f v = (case v of JArr xs \<Rightarrow> all_valid f xs | _ \<Rightarrow> Inl ValidationError)"

definition val_datetime :: "json \<Rightarrow> py_error + datetime" where
  \<comment> \<open>a \<^verbatim>\<open>datetime\<close> field behind the \<^verbatim>\<open>pre=True\<close> validator\<close>
  "val_datetime v =
     (case parse_swift_datetime (PJson v) of
        Inr (PDatetime t) \<Rightarrow> Inr t
      | _ \<Rightarrow> Inl ValidationError)"

definition req :: "pydict \<Rightarrow> string \<Rightarrow> (json \<Rightarrow> py_error + 'a) \<Rightarrow> py_error + 'a" where
  \<comment> \<open>a required field\<close>
  "req d k f = (case map_of d k of None \<Rightarrow> Inl ValidationError | Some v \<Rightarrow> f v)"

definition opt :: "pydict \<Rightarrow> string \<Rightarrow> (json \<Rightarrow> py_error + 'a) \<Rightarrow> py_error + 'a option" where
  \<comment> \<open>an \<^verbatim>\<open>Optional[...]\<close> field with default \<^verbatim>\<open>None\<close>\<close>
  "opt d k f =
     (case map_of d k of
        None \<Rightarrow> Inr None
      | Some JNull \<Rightarrow> Inr None
      | Some v \<Rightarrow> (case f v of Inl e \<Rightarrow> Inl e | Inr x \<Rightarrow> Inr (Some x)))"

definition dflt :: "pydict \<Rightarrow> string \<Rightarrow> 'a \<Rightarrow> (json \<Rightarrow> py_error + 'a) \<Rightarrow> py_error + 'a" where
  \<comment> \<open>a field with a default value\<close>
  "dflt d k x f = (case map_of d k of None \<Rightarrow> Inr x | Some v \<Rightarrow> f v)"

definition validate_common_point :: "json \<Rightarrow> py_error + common_point" where
  "validate_common_point v =
     (case v of
        JObj d \<Rightarrow>
          bind_err (req d ''date'' val_datetime) (\<lambda>dt.
          bind_err (req d ''qty'' val_float) (\<lambda>q.
          Inr \<lparr>cp_date = dt, cp_qty = q\<rparr>))
      | _ \<Rightarrow> Inl ValidationError)"

definition validate_sleep_entry :: "json \<Rightarrow> py_error + sleep_entry" where
  "validate_sleep_entry v =
     (case v of
        JObj d \<Rightarrow>
          bind_err (req d ''date'' val_datetime) (\<lambda>dt.
          bind_err (req d ''asleep'' val_float) (\<lambda>a.
          bind_err (req d ''awake'' val_float) (\<lambda>aw.
          bind_err (req d ''core'' val_float) (\<lambda>c.
          bind_err (req d ''deep'' val_float) (\<lambda>dp.
          bind_err (req d ''rem'' val_float) (\<lambda>r.
          bind_err (req d ''sleepStart'' val_datetime) (\<lambda>s.
          bind_err (req d ''sleepEnd'' val_datetime) (\<lambda>e.
          bind_err (req d ''source'' val_str) (\<lambda>src.
          bind_err (req d ''totalSleep'' val_float) (\<lambda>t.
          Inr \<lparr>se_date = dt, asleep = a, awake = aw, core = c, deep = dp, rem = r,
               sleepStart = s, sleepEnd = e, se_source = src, totalSleep = t\<rparr>))))))))))
      | _ \<Rightarrow> Inl ValidationError)"

definition validate_common_metric :: "json \<Rightarrow> py_error + common_metric" where
  "validate_common_metric v =
     (case v of
        JObj d \<Rightarrow>
          bind_err (req d ''name'' val_str) (\<lambda>n.
          bind_err (req d ''units'' val_str) (\<lambda>u.
          bind_err (req d ''data'' (val_list validate_common_point)) (\<lambda>ps.
          Inr \<lparr>cm_name = n, cm_units = u, cm_data = ps\<rparr>)))
      | _ \<Rightarrow> Inl ValidationError)"

definition val_sleep_literal :: "json \<Rightarrow> py_error + unit" where
  \<comment> \<open>\<^verbatim>\<open>Literal["sleep_analysis"]\<close>\<close>
  "val_sleep_literal v = (if v = JStr ''sleep_analysis'' then Inr () else Inl ValidationError)"

definition validate_sleep_metric :: "json \<Rightarrow> py_error + sleep_metric" where
  "validate_sleep_metric v =
     (case v of
        JObj d \<Rightarrow>
          bind_err (req d ''name'' val_sleep_literal) (\<lambda>_.
          bind_err (req d ''units'' val_str) (\<lambda>u.
          bind_err (req d ''data'' (val_list validate_sleep_entry)) (\<lambda>es.
          Inr \<lparr>sm_units = u, sm_data = es\<rparr>)))
      | _ \<Rightarrow> Inl ValidationError)"

definition metric_discriminator :: "json \<Rightarrow> string" where
  "metric_discriminator v =
     (case v of
        JObj d \<Rightarrow>
          if dict_get d ''name'' JNull = JStr ''sleep_analysis'' then ''sleep'' else ''common''
      | _ \<Rightarrow> ''common'')"

definition validate_metric :: "json \<Rightarrow> py_error + metric" where
  \<comment> \<open>\<^verbatim>\<open>MetricUnion\<close>: the tag chosen by the discriminator selects the model\<close>
  "validate_metric v =
     (if metric_discriminator v = ''sleep''
      then bind_err (validate_sleep_metric v) (\<lambda>m. Inr (SleepM m))
      else bind_err (validate_common_metric v) (\<lambda>m. Inr (CommonM m)))"

definition validate_workout :: "json \<Rightarrow> py_error + workout" where
  "validate_workout v =
     (case v of
        JObj d \<Rightarrow>
          bind_err (opt d ''start'' val_datetime) (\<lambda>s.
          bind_err (opt d ''end'' val_datetime) (\<lambda>e.
          bind_err (opt d ''duration'' val_float) (\<lambda>du.
          bind_err (opt d ''workoutType'' val_str) (\<lambda>wt.
          bind_err (opt d ''location'' val_str) (\<lambda>lo.
          bind_err (opt d ''activeEnergyBurned'' val_dict) (\<lambda>ab.
          bind_err (opt d ''activeEnergy'' (val_list val_dict)) (\<lambda>ae.
          bind_err (opt d ''heartRateRecovery'' (val_list val_dict)) (\<lambda>hr.
          bind_err (opt d ''heartRateData'' (val_list val_dict)) (\<lambda>hd.
          bind_err (opt d ''intensity'' val_dict) (\<lambda>it.
          bind_err (opt d ''metadata'' val_dict) (\<lambda>md.
          bind_err (opt d ''source'' val_str) (\<lambda>src.
          Inr \<lparr>w_start = s, w_end = e, duration = du, workoutType = wt, location = lo,
               activeEnergyBurned = ab, activeEnergy = ae, heartRateRecovery = hr,
               heartRateData = hd, intensity = it, metadata = md, w_source = src\<rparr>))))))))))))
      | _ \<Rightarrow> Inl ValidationError)"

definition validate_data_node :: "json \<Rightarrow> py_error + data_node" where
  "validate_data_node v =
     (case v of
        JObj d \<Rightarrow>
          bind_err (dflt d ''metrics'' [] (val_list validate_metric)) (\<lambda>ms.
          bind_err (dflt d ''workouts'' [] (val_list validate_workout)) (\<lambda>ws.
          Inr \<lparr>metrics = ms, workouts = ws\<rparr>))
      | _ \<Rightarrow> Inl ValidationError)"

definition validate_payload :: "json \<Rightarrow> py_error + payload" where
  \<comment> \<open>\<^verbatim>\<open>HealthAutoExportPayload(**raw_payload)\<close>; unpacking anything but a dict raises\<close>
  "validate_payload v =
     (case v of
        JObj d \<Rightarrow>
          bind_err (req d ''data'' validate_data_node) (\<lambda>dn.
          bind_err (opt d ''request_id'' val_str) (\<lambda>rid.
          Inr \<lparr>pl_data = dn, request_id = rid\<rparr>))
      | _ \<Rightarrow> Inl TypeError)"

section \<open>Storage\<close>

text \<open>
  The two tables, in insertion order. \<^verbatim>\<open>conn.execute\<close> either raises (the storage refuses
  the statement: \<open>refuses\<close> says for which rows) or runs
  \<^verbatim>\<open>INSERT ... ON CONFLICT (...) DO NOTHING\<close>: the row is appended unless a stored row has
  the same natural key, in which case the table is left as it is.
\<close>

record health_row =
  hr_user :: string
  hr_name :: string
  hr_unit :: string
  hr_timestamp :: datetime
  hr_value :: rat

record sleep_row =
  sr_user :: string
  sr_start :: datetime
  sr_end :: datetime
  duration_total_minutes :: int
  duration_in_bed_minutes :: int
  duration_awake_minutes :: int
  duration_light_minutes :: int
  duration_deep_minutes :: int
  duration_rem_minutes :: int
  sr_efficiency :: rat

record store =
  health_metrics :: "health_row list"
  sleep_metrics :: "sleep_row list"

datatype stmt = InsertHealth health_row | InsertSleep sleep_row

datatype log_entry =
    HealthMetricError string
  | SleepDataError
  | WorkoutDataError

record conn =
  db :: store
  logged :: "log_entry list"

definition health_conflict :: "health_row \<Rightarrow> health_row \<Rightarrow> bool" where
  \<comment> \<open>\<^verbatim>\<open>ON CONFLICT (user_id, metric_name, timestamp)\<close>\<close>
  "health_conflict r r' =
     (hr_user r = hr_user r' \<and> hr_name r = hr_name r'
      \<and> same_instant (hr_timestamp r) (hr_timestamp r'))"

definition sleep_conflict :: "sleep_row \<Rightarrow> sleep_row \<Rightarrow> bool" where
  \<comment> \<open>\<^verbatim>\<open>ON CONFLICT (user_id, start_time)\<close>\<close>
  "sleep_conflict r r' = (sr_user r = sr_user r' \<and> same_instant (sr_start r) (sr_start r'))"

definition execute :: "(stmt \<Rightarrow> bool) \<Rightarrow> store \<Rightarrow> stmt \<Rightarrow> py_error + store" where
  "execute refuses s q =
     (if refuses q then Inl StorageError
      else case q of
        InsertHealth r \<Rightarrow>
          Inr (if list_ex (health_conflict r) (health_metrics s) then s
               else s\<lparr>health_metrics := health_metrics s @ [r]\<rparr>)
      | InsertSleep r \<Rightarrow>
          Inr (if list_ex (sleep_conflict r) (sleep_metrics s) then s
               else s\<lparr>sleep_metrics := sleep_metrics s @ [r]\<rparr>))"

section \<open>Extraction and writing\<close>

definition health_row_of :: "string \<Rightarrow> common_metric \<Rightarrow> common_point \<Rightarrow> health_row" where
  \<comment> \<open>the parameters \<^verbatim>\<open>$1 .. $5\<close> of the statement for one data point\<close>
  "health_row_of user_id m p =
     \<lparr>hr_user = user_id, hr_name = cm_name m, hr_unit = cm_units m,
      hr_timestamp = cp_date p, hr_value = cp_qty p\<rparr>"

fun insert_points ::
  "(stmt \<Rightarrow> bool) \<Rightarrow> string \<Rightarrow> common_metric \<Rightarrow> common_point list \<Rightarrow> nat \<times> conn \<Rightarrow> nat \<times> conn" where
  \<comment> \<open>the loop over \<^verbatim>\<open>metric.data\<close>\<close>
  "insert_points refuses user_id m [] (n, c) = (n, c)"
| "insert_points refuses user_id m (p # ps) (n, c) =
     (case execute refuses (db c) (InsertHealth (health_row_of user_id m p)) of
        Inr s \<Rightarrow> insert_points refuses user_id m ps (n + 1, c\<lparr>db := s\<rparr>)
      | Inl e \<Rightarrow>
          insert_points refuses user_id m ps (n, c\<lparr>logged := logged c @ [HealthMetricError (cm_name m)]\<rparr>))"

fun insert_metrics_loop ::
  "(stmt \<Rightarrow> bool) \<Rightarrow> string \<Rightarrow> common_metric list \<Rightarrow> nat \<times> conn \<Rightarrow> nat \<times> conn" where
  "insert_metrics_loop refuses user_id [] st = st"
| "insert_metrics_loop refuses user_id (m # ms) st =
     insert_metrics_loop refuses user_id ms (insert_points refuses user_id m (cm_data m) st)"

definition insert_health_metrics ::
  "(stmt \<Rightarrow> bool) \<Rightarrow> conn \<Rightarrow> string \<Rightarrow> common_metric list \<Rightarrow> nat \<times> conn" where
  "insert_health_metrics refuses c user_id ms = insert_metrics_loop refuses user_id ms (0, c)"

definition py_truediv :: "int \<Rightarrow> int \<Rightarrow> py_error + rat" where
  \<comment> \<open>\<^verbatim>\<open>a / b\<close> on ints\<close>
  "py_truediv a b = (if b = 0 then Inl ZeroDivisionError else Inr (of_int a / of_int b))"

definition efficiency :: "int \<Rightarrow> int \<Rightarrow> py_error + rat" where
  \<comment> \<open>\<^verbatim>\<open>(total_sleep_minutes / total_time_in_bed * 100) if total_time_in_bed > 0 else 0\<close>\<close>
  "efficiency total_sleep_minutes total_time_in_bed =
     (if total_time_in_bed > 0
      then bind_err (py_truediv total_sleep_minutes total_time_in_bed) (\<lambda>x. Inr (x * 100))
      else Inr 0)"

definition total_time_in_bed :: "sleep_entry \<Rightarrow> py_error + int" where
  \<comment> \<open>\<^verbatim>\<open>int((sleepEnd - sleepStart).total_seconds() / 60)\<close>\<close>
  "total_time_in_bed e =
     bind_err (dt_sub (sleepEnd e) (sleepStart e)) (\<lambda>td. Inr (py_int (total_seconds td / 60)))"

definition sleep_row_of :: "string \<Rightarrow> sleep_entry \<Rightarrow> py_error + sleep_row" where
  \<comment> \<open>the body of the \<^verbatim>\<open>try\<close> up to the statement's parameters\<close>
  "sleep_row_of user_id e =
     (let total_sleep_minutes = py_int (totalSleep e * 60);
          awake_minutes = py_int (awake e * 60);
          core_minutes = py_int (core e * 60);
          deep_minutes = py_int (deep e * 60);
          rem_minutes = py_int (rem e * 60)
      in bind_err (total_time_in_bed e) (\<lambda>in_bed.
         bind_err (efficiency total_sleep_minutes in_bed) (\<lambda>eff.
         Inr \<lparr>sr_user = user_id, sr_start = sleepStart e, sr_end = sleepEnd e,
              duration_total_minutes = total_sleep_minutes,
              duration_in_bed_minutes = in_bed,
              duration_awake_minutes = awake_minutes,
              duration_light_minutes = core_minutes,
              duration_deep_minutes = deep_minutes,
              duration_rem_minutes = rem_minutes,
              sr_efficiency = eff\<rparr>)))"

fun insert_sleep_entries ::
  "(stmt \<Rightarrow> bool) \<Rightarrow> string \<Rightarrow> sleep_entry list \<Rightarrow> nat \<times> conn \<Rightarrow> nat \<times> conn" where
  "insert_sleep_entries refuses user_id [] (n, c) = (n, c)"
| "insert_sleep_entries refuses user_id (e # es) (n, c) =
     (case bind_err (sleep_row_of user_id e) (\<lambda>r. execute refuses (db c) (InsertSleep r)) of
        Inr s \<Rightarrow> insert_sleep_entries refuses user_id es (n + 1, c\<lparr>db := s\<rparr>)
      | Inl err \<Rightarrow>
          insert_sleep_entries refuses user_id es (n, c\<lparr>logged := logged c @ [SleepDataError]\<rparr>))"

definition insert_sleep_metrics_from_analysis ::
  "(stmt \<Rightarrow> bool) \<Rightarrow> conn \<Rightarrow> string \<Rightarrow> metric \<Rightarrow> nat \<times> conn" where
  \<comment> \<open>on a common block each point lacks the sleep attributes: AttributeError inside the
      \<^verbatim>\<open>try\<close>, one logged error per point\<close>
  "insert_sleep_metrics_from_analysis refuses c user_id m =
     (case m of
        SleepM sm \<Rightarrow> insert_sleep_entries refuses user_id (sm_data sm) (0, c)
      | CommonM cm \<Rightarrow> (0, c\<lparr>logged := logged c @ replicate (length (cm_data cm)) SleepDataError\<rparr>))"

definition num_of :: "json \<Rightarrow> rat option" where
  \<comment> \<open>the values Python's arithmetic and ordering against an int accept\<close>
  "num_of v = (case v of JNum x \<Rightarrow> Some x | JBool b \<Rightarrow> Some (if b then 1 else 0) | _ \<Rightarrow> None)"

definition py_add :: "json \<Rightarrow> json \<Rightarrow> py_error + json" where
  \<comment> \<open>\<^verbatim>\<open>total_calories += x\<close> with a numeric left operand\<close>
  "py_add a b =
     (case (num_of a, num_of b) of
        (Some x, Some y) \<Rightarrow> Inr (JNum (x + y))
      | _ \<Rightarrow> Inl TypeError)"

definition py_gt0 :: "json \<Rightarrow> py_error + bool" where
  \<comment> \<open>\<^verbatim>\<open>v > 0\<close>\<close>
  "py_gt0 v = (case num_of v of Some x \<Rightarrow> Inr (x > 0) | None \<Rightarrow> Inl TypeError)"

fun sum_energy :: "pydict list \<Rightarrow> json \<Rightarrow> py_error + json" where
  \<comment> \<open>the loop over \<^verbatim>\<open>workout.activeEnergy\<close>\<close>
  "sum_energy [] tot = Inr tot"
| "sum_energy (energy_point # rest) tot =
     (if dict_has energy_point ''qty''
      then bind_err (py_add tot (dict_get energy_point ''qty'' JNull)) (sum_energy rest)
      else sum_energy rest tot)"

definition truthy_dict :: "pydict option \<Rightarrow> bool" where
  "truthy_dict d = (d \<noteq> None \<and> d \<noteq> Some [])"

definition truthy_list :: "'a list option \<Rightarrow> bool" where
  "truthy_list xs = (xs \<noteq> None \<and> xs \<noteq> Some [])"

definition total_calories :: "workout \<Rightarrow> py_error + json" where
  "total_calories w =
     (if truthy_dict (activeEnergyBurned w)
      then Inr (dict_get (the (activeEnergyBurned w)) ''qty'' (JNum 0))
      else if truthy_list (activeEnergy w)
      then sum_energy (the (activeEnergy w)) (JNum 0)
      else Inr (JNum 0))"

definition duration_minutes :: "workout \<Rightarrow> py_error + rat" where
  "duration_minutes w =
     (case (w_start w, w_end w) of
        (Some s, Some e) \<Rightarrow> bind_err (dt_sub e s) (\<lambda>td. Inr (total_seconds td / 60))
      | _ \<Rightarrow> (case duration w of Some x \<Rightarrow> Inr x | None \<Rightarrow> Inr 0))"

definition workout_timestamp :: "datetime \<Rightarrow> workout \<Rightarrow> datetime" where
  \<comment> \<open>\<^verbatim>\<open>workout.start or datetime.now(timezone.utc)\<close>\<close>
  "workout_timestamp now w = (case w_start w of Some s \<Rightarrow> s | None \<Rightarrow> now)"

definition insert_workout :: "(stmt \<Rightarrow> bool) \<Rightarrow> datetime \<Rightarrow> string \<Rightarrow> workout \<Rightarrow> conn
    \<Rightarrow> py_error + (nat \<times> conn)" where
  \<comment> \<open>the body of the \<^verbatim>\<open>try\<close> for one workout: the increment of the counter and the
      connection after it, or the exception raised\<close>
  "insert_workout refuses now user_id w c =
     bind_err (total_calories w) (\<lambda>cal.
     bind_err (duration_minutes w) (\<lambda>dur.
     bind_err (py_gt0 cal) (\<lambda>positive.
       if positive
       then bind_err (execute refuses (db c)
                        (InsertHealth \<lparr>hr_user = user_id, hr_name = ''workout'',
                                       hr_unit = ''cal'',
                                       hr_timestamp = workout_timestamp now w,
                                       hr_value = the (num_of cal)\<rparr>))
              (\<lambda>s. Inr (1, c\<lparr>db := s\<rparr>))
       else Inr (0, c))))"

fun insert_workouts_loop ::
  "(stmt \<Rightarrow> bool) \<Rightarrow> datetime \<Rightarrow> string \<Rightarrow> workout list \<Rightarrow> nat \<times> conn \<Rightarrow> nat \<times> conn" where
  "insert_workouts_loop refuses now user_id [] (n, c) = (n, c)"
| "insert_workouts_loop refuses now user_id (w # ws) (n, c) =
     (case insert_workout refuses now user_id w c of
        Inr (k, c') \<Rightarrow> insert_workouts_loop refuses now user_id ws (n + k, c')
      | Inl e \<Rightarrow>
          insert_workouts_loop refuses now user_id ws (n, c\<lparr>logged := logged c @ [WorkoutDataError]\<rparr>))"

definition insert_workout_metrics ::
  "(stmt \<Rightarrow> bool) \<Rightarrow> datetime \<Rightarrow> conn \<Rightarrow> string \<Rightarrow> workout list \<Rightarrow> nat \<times> conn" where
  "insert_workout_metrics refuses now c user_id ws =
     insert_workouts_loop refuses now user_id ws (0, c)"

section \<open>The ingestion endpoint\<close>

record webhook_response =
  success :: bool
  processed_metrics :: nat
  processed_sleep :: nat
  processed_workouts :: nat
  request_hash :: string

definition metric_name :: "metric \<Rightarrow> string" where
  "metric_name m = (case m of CommonM cm \<Rightarrow> cm_name cm | SleepM _ \<Rightarrow> ''sleep_analysis'')"

fun process_metrics ::
  "(stmt \<Rightarrow> bool) \<Rightarrow> string \<Rightarrow> metric list \<Rightarrow> (nat \<times> nat) \<times> conn \<Rightarrow> (nat \<times> nat) \<times> conn" where
  \<comment> \<open>the loop over \<^verbatim>\<open>payload.data.metrics\<close>; the pair holds
      \<^verbatim>\<open>processed_counts["metrics"]\<close> and \<^verbatim>\<open>processed_counts["sleep"]\<close>\<close>
  "process_metrics refuses user_id [] st = st"
| "process_metrics refuses user_id (m # ms) ((nm, ns), c) =
     (if metric_name m = ''sleep_analysis''
      then (case insert_sleep_metrics_from_analysis refuses c user_id m of
              (k, c') \<Rightarrow> process_metrics refuses user_id ms ((nm, ns + k), c'))
      else (case m of
              CommonM cm \<Rightarrow>
                (case insert_health_metrics refuses c user_id [cm] of
                   (k, c') \<Rightarrow> process_metrics refuses user_id ms ((nm + k, ns), c'))
            | SleepM _ \<Rightarrow> process_metrics refuses user_id ms ((nm, ns), c)))"

definition failure_response :: webhook_response where
  "failure_response =
     \<lparr>success = False, processed_metrics = 0, processed_sleep = 0, processed_workouts = 0,
      request_hash = ''error''\<rparr>"

definition health_auto_export_webhook ::
  "(stmt \<Rightarrow> bool) \<Rightarrow> bool \<Rightarrow> datetime \<Rightarrow> store \<Rightarrow> string \<Rightarrow> json \<Rightarrow> webhook_response \<times> conn" where
  \<comment> \<open>\<open>connects\<close>: whether \<^verbatim>\<open>get_db_connection\<close> returns a connection; \<open>raw_payload\<close>:
      the body as \<^verbatim>\<open>json.loads\<close> returned it. The result is the response and the storage
      with the record-level errors printed during the call.\<close>
  "health_auto_export_webhook refuses connects now s user_id raw_payload =
     (case validate_payload raw_payload of
        Inl validation_error \<Rightarrow> (failure_response, \<lparr>db = s, logged = []\<rparr>)
      | Inr pl \<Rightarrow>
          if \<not> connects then (failure_response, \<lparr>db = s, logged = []\<rparr>)
          else
            (case process_metrics refuses user_id (metrics (pl_data pl))
                    ((0, 0), \<lparr>db = s, logged = []\<rparr>) of
               ((nm, ns), c) \<Rightarrow>
                 (case (if workouts (pl_data pl) \<noteq> []
                        then insert_workout_metrics refuses now c user_id (workouts (pl_data pl))
                        else (0, c)) of
                    (nw, c') \<Rightarrow>
                      (\<lparr>success = True, processed_metrics = nm, processed_sleep = ns,
                        processed_workouts = nw, request_hash = ''success''\<rparr>, c'))))"

section \<open>The query endpoint\<close>


section \<open>Readings of the specification and sample inputs\<close>


definition utc_at :: "int \<Rightarrow> datetime" where
  \<comment> \<open>the aware datetime that many seconds after the epoch, at offset zero\<close>
  "utc_at secs = \<lparr>local_us = secs * 1000000, utcoffset = Some 0\<rparr>"



definition envelope :: "json list \<Rightarrow> json list \<Rightarrow> json" where
  \<comment> \<open>\<^verbatim>\<open>{"data": {"metrics": [...], "workouts": [...]}}\<close>\<close>
  "envelope ms ws = JObj [(''data'', JObj [(''metrics'', JArr ms), (''workouts'', JArr ws)])]"

definition block :: "string \<Rightarrow> string \<Rightarrow> json list \<Rightarrow> json" where
  \<comment> \<open>\<^verbatim>\<open>{"name": ..., "units": ..., "data": [...]}\<close>\<close>
  "block n u pts = JObj [(''name'', JStr n), (''units'', JStr u), (''data'', JArr pts)]"

definition point :: "string \<Rightarrow> rat \<Rightarrow> json" where
  \<comment> \<open>\<^verbatim>\<open>{"date": ..., "qty": ...}\<close>\<close>
  "point d q = JObj [(''date'', JStr d), (''qty'', JNum q)]"

definition sleep_point :: "string \<Rightarrow> string \<Rightarrow> rat \<Rightarrow> json" where
  \<comment> \<open>a sleep record between two timestamps with the given hours asleep\<close>
  "sleep_point a b hours =
     JObj [(''date'', JStr a), (''asleep'', JNum hours), (''awake'', JNum 0),
           (''core'', JNum hours), (''deep'', JNum 0), (''rem'', JNum 0),
           (''sleepStart'', JStr a), (''sleepEnd'', JStr b), (''source'', JStr ''watch''),
           (''totalSleep'', JNum hours)]"

definition empty_store :: store where
  "empty_store = \<lparr>health_metrics = [], sleep_metrics = []\<rparr>"

definition fresh :: conn where
  \<comment> \<open>a connection to empty tables\<close>
  "fresh = \<lparr>db = empty_store, logged = []\<rparr>"

definition accepts_all :: "stmt \<Rightarrow> bool" where
  \<comment> \<open>a storage that refuses no statement\<close>
  "accepts_all q = False"

definition bare_workout :: workout where
  \<comment> \<open>the workout \<^verbatim>\<open>{}\<close>: every field at its default\<close>
  "bare_workout =
     \<lparr>w_start = None, w_end = None, duration = None, workoutType = None, location = None,
      activeEnergyBurned = None, activeEnergy = None, heartRateRecovery = None,
      heartRateData = None, intensity = None, metadata = None, w_source = None\<rparr>"

definition july_start :: datetime where
  \<comment> \<open>\<^verbatim>\<open>2025-07-01 06:05:54 +0200\<close>\<close>
  "july_start = \<lparr>local_us = 1751349954000000, utcoffset = Some 7200000000\<rparr>"

definition july_end_naive :: datetime where
  \<comment> \<open>\<^verbatim>\<open>2025-07-01T07:00:00\<close>, without offset\<close>
  "july_end_naive = \<lparr>local_us = 1751353200000000, utcoffset = None\<rparr>"



definition zero_workout_json :: json where
  "zero_workout_json =
     JObj [(''start'', JStr ''2025-07-01 06:05:54 +0200''),
           (''activeEnergyBurned'', JObj [(''quantity'', JNum 0)])]"

definition zero_workout :: workout where
  "zero_workout =
     bare_workout\<lparr>w_start := Some july_start,
                  activeEnergyBurned := Some [(''quantity'', JNum 0)]\<rparr>"

definition zero_workout_mixed_json :: json where
  "zero_workout_mixed_json =
     JObj [(''start'', JStr ''2025-07-01 06:05:54 +0200''),
           (''end'', JStr ''2025-07-01T07:00:00''),
           (''activeEnergyBurned'', JObj [(''qty'', JNum 0)])]"

definition zero_workout_mixed :: workout where
  "zero_workout_mixed =
     bare_workout\<lparr>w_start := Some july_start, w_end := Some july_end_naive,
                  activeEnergyBurned := Some [(''qty'', JNum 0)]\<rparr>"

definition night_block_json :: json where
  \<comment> \<open>a sleep block whose units say milliseconds\<close>
  "night_block_json =
     block ''sleep_analysis'' ''ms''
       [sleep_point ''2025-06-24 23:00:00 +0200'' ''2025-06-25 07:00:00 +0200'' 7]"

definition night_entry :: sleep_entry where
  "night_entry =
     \<lparr>se_date = \<lparr>local_us = 1750806000000000, utcoffset = Some 7200000000\<rparr>,
      asleep = 7, awake = 0, core = 7, deep = 0, rem = 0,
      sleepStart = \<lparr>local_us = 1750806000000000, utcoffset = Some 7200000000\<rparr>,
      sleepEnd = \<lparr>local_us = 1750834800000000, utcoffset = Some 7200000000\<rparr>,
      se_source = ''watch'', totalSleep = 7\<rparr>"

definition hrv_block_json :: json where
  "hrv_block_json =
     block ''heart_rate_variability'' ''ms'' [point ''2025-07-01 06:05:54 +0200'' 42]"

definition hrv_block :: common_metric where
  "hrv_block =
     \<lparr>cm_name = ''heart_rate_variability'', cm_units = ''ms'',
      cm_data = [\<lparr>cp_date = july_start, cp_qty = 42\<rparr>]\<rparr>"

definition spec_replace_trailing_Z :: "string \<Rightarrow> string" where
  \<comment> \<open>the specification's substitution: a \<^verbatim>\<open>Z\<close> in last position becomes \<^verbatim>\<open>+00:00\<close>\<close>
  "spec_replace_trailing_Z s =
     (if s \<noteq> [] \<and> last s = CHR ''Z'' then butlast s @ ''+00:00'' else s)"

definition spec_normalize :: "pyval \<Rightarrow> py_error + pyval" where
  \<comment> \<open>the specification's two attempts, with the substitution of the trailing \<^verbatim>\<open>Z\<close>\<close>
  "spec_normalize v =
     (case v of
        PJson (JStr s) \<Rightarrow>
          (case strptime_swift s of
             Inr t \<Rightarrow> Inr (PDatetime t)
           | Inl _ \<Rightarrow>
               (case fromisoformat (spec_replace_trailing_Z s) of
                  Inl e \<Rightarrow> Inl e
                | Inr t \<Rightarrow> Inr (PDatetime t)))
      | _ \<Rightarrow> Inr v)"

definition absorbed :: "(stmt \<Rightarrow> bool) \<Rightarrow> store \<Rightarrow> stmt \<Rightarrow> bool" where
  \<comment> \<open>a statement that cannot change the tables: the storage refuses it, or a stored row
      has its natural key\<close>
  "absorbed refuses s q =
     (refuses q \<or>
      (case q of
         InsertHealth r \<Rightarrow> list_ex (health_conflict r) (health_metrics s)
       | InsertSleep r \<Rightarrow> list_ex (sleep_conflict r) (sleep_metrics s)))"

definition attempt :: "(stmt \<Rightarrow> bool) \<Rightarrow> stmt \<Rightarrow> store \<Rightarrow> store" where
  \<comment> \<open>one statement inside its \<^verbatim>\<open>try\<close>: the tables after it, unchanged when it raises\<close>
  "attempt refuses q s = (case execute refuses s q of Inr s' \<Rightarrow> s' | Inl _ \<Rightarrow> s)"

definition replay :: "(stmt \<Rightarrow> bool) \<Rightarrow> stmt list \<Rightarrow> store \<Rightarrow> store" where
  \<comment> \<open>a sequence of attempted statements\<close>
  "replay refuses qs s = fold (attempt refuses) qs s"

definition point_stmts :: "string \<Rightarrow> common_metric \<Rightarrow> stmt list" where
  \<comment> \<open>the statements attempted for a common block, one per data point\<close>
  "point_stmts user_id m = map (\<lambda>p. InsertHealth (health_row_of user_id m p)) (cm_data m)"

definition sleep_stmts :: "string \<Rightarrow> sleep_entry list \<Rightarrow> stmt list" where
  \<comment> \<open>the statements attempted for sleep entries, one per entry whose row can be computed\<close>
  "sleep_stmts user_id es =
     concat (map (\<lambda>e. case sleep_row_of user_id e of Inr r \<Rightarrow> [InsertSleep r] | Inl _ \<Rightarrow> []) es)"

definition ten_points :: "json list" where
  \<comment> \<open>ten well-formed data points, one minute apart\<close>
  "ten_points =
     [point ''2025-06-25 00:00:00 +0200'' 0, point ''2025-06-25 00:01:00 +0200'' 1,
      point ''2025-06-25 00:02:00 +0200'' 2, point ''2025-06-25 00:03:00 +0200'' 3,
      point ''2025-06-25 00:04:00 +0200'' 4, point ''2025-06-25 00:05:00 +0200'' 5,
      point ''2025-06-25 00:06:00 +0200'' 6, point ''2025-06-25 00:07:00 +0200'' 7,
      point ''2025-06-25 00:08:00 +0200'' 8, point ''2025-06-25 00:09:00 +0200'' 9]"

definition ten_valid :: "common_point list" where
  \<comment> \<open>the ten points as validation returns them\<close>
  "ten_valid = (case all_valid validate_common_point ten_points of Inr ps \<Rightarrow> ps | Inl _ \<Rightarrow> [])"

definition hrv_ten :: common_metric where
  "hrv_ten = \<lparr>cm_name = ''heart_rate_variability'', cm_units = ''ms'', cm_data = ten_valid\<rparr>"






section \<open>Sleep extraction\<close>










section \<open>Date range of a query\<close>



section \<open>Classification of metric blocks\<close>

lemma discriminator_name:
  "(metric_discriminator v = ''sleep'') =
     (\<exists>d. v = JObj d \<and> map_of d ''name'' = Some (JStr ''sleep_analysis''))"
  by (cases v) (auto simp: metric_discriminator_def dict_get_def split: option.splits)

lemma common_metric_name:
  "validate_metric v = Inr (CommonM cm) \<Longrightarrow> cm_name cm \<noteq> ''sleep_analysis''"
  by (cases v)
     (auto simp: validate_metric_def metric_discriminator_def dict_get_def
        validate_common_metric_def bind_err_def req_def val_str_def
        split: if_splits sum.splits option.splits json.splits)

lemma sleep_metric_points:
  "validate_sleep_metric (JObj d) = Inr sm \<Longrightarrow>
     \<exists>pts. map_of d ''data'' = Some (JArr pts) \<and> all_valid validate_sleep_entry pts = Inr (sm_data sm)"
  by (auto simp: validate_sleep_metric_def bind_err_def req_def val_list_def
      split: sum.splits option.splits json.splits)

lemma common_metric_points:
  "validate_common_metric (JObj d) = Inr cm \<Longrightarrow>
     \<exists>pts. map_of d ''data'' = Some (JArr pts) \<and> all_valid validate_common_point pts = Inr (cm_data cm)"
  by (auto simp: validate_common_metric_def bind_err_def req_def val_list_def
      split: sum.splits option.splits json.splits)

text \<open>
  C8. Classification looks at the \<open>name\<close> field only: a validated block is a sleep block
  exactly when its name is \<open>sleep_analysis\<close>, whatever its \<open>units\<close>; then every point of its
  data array has been validated as a sleep record and the whole array goes through the sleep
  insertion, and otherwise every point is a common point and the array goes through the
  common insertion. The choice is made once for the block.
\<close>

theorem metric_block_routing:
  assumes "validate_metric v = Inr m"
  shows "(metric_discriminator v = ''sleep'' \<longrightarrow>
           (\<exists>sm d pts. m = SleepM sm \<and> v = JObj d \<and> map_of d ''data'' = Some (JArr pts)
              \<and> all_valid validate_sleep_entry pts = Inr (sm_data sm)
              \<and> process_metrics rf u [m] ((nm, ns), c) =
                  (case insert_sleep_entries rf u (sm_data sm) (0, c) of
                     (k, c') \<Rightarrow> ((nm, ns + k), c'))))
       \<and> (metric_discriminator v \<noteq> ''sleep'' \<longrightarrow>
           (\<exists>cm d pts. m = CommonM cm \<and> v = JObj d \<and> map_of d ''data'' = Some (JArr pts)
              \<and> all_valid validate_common_point pts = Inr (cm_data cm)
              \<and> process_metrics rf u [m] ((nm, ns), c) =
                  (case insert_points rf u cm (cm_data cm) (0, c) of
                     (k, c') \<Rightarrow> ((nm + k, ns), c'))))
       \<and> (metric_discriminator v = ''sleep'') =
           (\<exists>d. v = JObj d \<and> map_of d ''name'' = Some (JStr ''sleep_analysis''))
       \<and> (\<forall>d x. v = JObj d \<longrightarrow>
             metric_discriminator (JObj ((''units'', x) # d)) = metric_discriminator v)"
proof (intro conjI impI allI)
  assume s: "metric_discriminator v = ''sleep''"
  with assms obtain sm where m: "m = SleepM sm" and vs: "validate_sleep_metric v = Inr sm"
    by (auto simp: validate_metric_def bind_err_def split: sum.splits)
  from s obtain d where d: "v = JObj d" using discriminator_name by blast
  with vs obtain pts where
    "map_of d ''data'' = Some (JArr pts)" "all_valid validate_sleep_entry pts = Inr (sm_data sm)"
    using sleep_metric_points by blast
  moreover have "process_metrics rf u [m] ((nm, ns), c) =
      (case insert_sleep_entries rf u (sm_data sm) (0, c) of (k, c') \<Rightarrow> ((nm, ns + k), c'))"
    using m by (auto simp: metric_name_def insert_sleep_metrics_from_analysis_def split: prod.splits)
  ultimately show "\<exists>sm d pts. m = SleepM sm \<and> v = JObj d \<and> map_of d ''data'' = Some (JArr pts)
              \<and> all_valid validate_sleep_entry pts = Inr (sm_data sm)
              \<and> process_metrics rf u [m] ((nm, ns), c) =
                  (case insert_sleep_entries rf u (sm_data sm) (0, c) of
                     (k, c') \<Rightarrow> ((nm, ns + k), c'))"
    using m d by blast
next
  assume s: "metric_discriminator v \<noteq> ''sleep''"
  with assms obtain cm where m: "m = CommonM cm" and vc: "validate_common_metric v = Inr cm"
    by (auto simp: validate_metric_def bind_err_def split: sum.splits)
  from vc obtain d where d: "v = JObj d"
    by (cases v) (auto simp: validate_common_metric_def)
  with vc obtain pts where
    "map_of d ''data'' = Some (JArr pts)" "all_valid validate_common_point pts = Inr (cm_data cm)"
    using common_metric_points by blast
  moreover from m assms have "cm_name cm \<noteq> ''sleep_analysis''"
    using common_metric_name by blast
  then have "process_metrics rf u [m] ((nm, ns), c) =
      (case insert_points rf u cm (cm_data cm) (0, c) of (k, c') \<Rightarrow> ((nm + k, ns), c'))"
    using m by (auto simp: metric_name_def insert_health_metrics_def split: prod.splits)
  ultimately show "\<exists>cm d pts. m = CommonM cm \<and> v = JObj d \<and> map_of d ''data'' = Some (JArr pts)
              \<and> all_valid validate_common_point pts = Inr (cm_data cm)
              \<and> process_metrics rf u [m] ((nm, ns), c) =
                  (case insert_points rf u cm (cm_data cm) (0, c) of
                     (k, c') \<Rightarrow> ((nm + k, ns), c'))"
    using m d by blast
next
  show "(metric_discriminator v = ''sleep'') =
           (\<exists>d. v = JObj d \<and> map_of d ''name'' = Some (JStr ''sleep_analysis''))"
    by (rule discriminator_name)
next
  fix d x assume "v = JObj d"
  then show "metric_discriminator (JObj ((''units'', x) # d)) = metric_discriminator v"
    by (simp add: metric_discriminator_def dict_get_def)
qed

theorem metric_block_routing_witness:
  "validate_metric night_block_json = Inr (SleepM \<lparr>sm_units = ''ms'', sm_data = [night_entry]\<rparr>)
   \<and> metric_discriminator night_block_json = ''sleep''
   \<and> process_metrics accepts_all ''u''
          [SleepM \<lparr>sm_units = ''ms'', sm_data = [night_entry]\<rparr>] ((0, 0), fresh) =
        (case insert_sleep_entries accepts_all ''u'' [night_entry] (0, fresh) of
           (k, c') \<Rightarrow> ((0, 0 + k), c'))
   \<and> validate_metric hrv_block_json = Inr (CommonM hrv_block)
   \<and> metric_discriminator hrv_block_json \<noteq> ''sleep''
   \<and> process_metrics accepts_all ''u'' [CommonM hrv_block] ((0, 0), fresh) =
        (case insert_points accepts_all ''u'' hrv_block (cm_data hrv_block) (0, fresh) of
           (k, c') \<Rightarrow> ((0 + k, 0), c'))
   \<and> metric_discriminator
        (JObj ((''units'', JStr ''hours'') #
               [(''name'', JStr ''sleep_analysis''), (''units'', JStr ''ms''),
                (''data'', JArr [sleep_point ''2025-06-24 23:00:00 +0200''
                                   ''2025-06-25 07:00:00 +0200'' 7])])) =
       metric_discriminator night_block_json"
proof -
  let ?m = "SleepM \<lparr>sm_units = ''ms'', sm_data = [night_entry]\<rparr>"
  have j: "night_block_json =
      JObj [(''name'', JStr ''sleep_analysis''), (''units'', JStr ''ms''),
            (''data'', JArr [sleep_point ''2025-06-24 23:00:00 +0200''
                               ''2025-06-25 07:00:00 +0200'' 7])]"
    by (simp add: night_block_json_def block_def)
  have v: "validate_metric night_block_json = Inr ?m" by code_simp
  have s: "metric_discriminator night_block_json = ''sleep''" by code_simp
  have w: "validate_metric hrv_block_json = Inr (CommonM hrv_block)" by code_simp
  have t: "metric_discriminator hrv_block_json \<noteq> ''sleep''" by code_simp
  from metric_block_routing [OF v, of accepts_all "''u''" 0 0 fresh, THEN conjunct1, THEN mp, OF s]
  obtain sm where e: "?m = SleepM sm" and p: "process_metrics accepts_all ''u'' [?m] ((0, 0), fresh) =
        (case insert_sleep_entries accepts_all ''u'' (sm_data sm) (0, fresh) of
           (k, c') \<Rightarrow> ((0, 0 + k), c'))"
    by (elim exE conjE)
  from e have "sm_data sm = [night_entry]" by auto
  with p have a: "process_metrics accepts_all ''u'' [?m] ((0, 0), fresh) =
        (case insert_sleep_entries accepts_all ''u'' [night_entry] (0, fresh) of
           (k, c') \<Rightarrow> ((0, 0 + k), c'))"
    by (simp only:)
  from metric_block_routing [OF w, of accepts_all "''u''" 0 0 fresh, THEN conjunct2,
      THEN conjunct1, THEN mp, OF t]
  obtain cm where e': "CommonM hrv_block = CommonM cm" and p': "process_metrics accepts_all ''u'' [CommonM hrv_block] ((0, 0), fresh) =
        (case insert_points accepts_all ''u'' cm (cm_data cm) (0, fresh) of
           (k, c') \<Rightarrow> ((0 + k, 0), c'))"
    by (elim exE conjE)
  from e' have "cm = hrv_block" by simp
  with p' have b: "process_metrics accepts_all ''u'' [CommonM hrv_block] ((0, 0), fresh) =
        (case insert_points accepts_all ''u'' hrv_block (cm_data hrv_block) (0, fresh) of
           (k, c') \<Rightarrow> ((0 + k, 0), c'))"
    by (simp only:)
  from metric_block_routing [OF v, of accepts_all "''u''" 0 0 fresh, THEN conjunct2,
      THEN conjunct2, THEN conjunct2, rule_format, OF j]
  have c: "metric_discriminator
        (JObj ((''units'', JStr ''hours'') #
               [(''name'', JStr ''sleep_analysis''), (''units'', JStr ''ms''),
                (''data'', JArr [sleep_point ''2025-06-24 23:00:00 +0200''
                                   ''2025-06-25 07:00:00 +0200'' 7])])) =
       metric_discriminator night_block_json" .
  from v s w t a b c show ?thesis by (intro conjI)
qed

section \<open>Workout calories\<close>




text \<open>
  C5, as the code has it. A workout whose total calories are not greater than 0, and whose
  duration can be computed (its start and end, when both are given, are both aware or both
  naive), writes no row, is not counted, and prints no error: the loop goes on as if the
  workout were not in the list.
\<close>

theorem zero_calorie_workout_skipped:
  assumes "total_calories w = Inr cal" and "num_of cal = Some x" and "x \<le> 0"
    and "duration_minutes w = Inr dm"
  shows "insert_workouts_loop rf now u (w # ws) (n, c) = insert_workouts_loop rf now u ws (n, c)"
  using assms by (simp add: insert_workout_def bind_err_def py_gt0_def)

theorem zero_calorie_workout_skipped_witness:
  "validate_workout zero_workout_json = Inr zero_workout
   \<and> total_calories zero_workout = Inr (JNum 0) \<and> num_of (JNum 0) = Some 0 \<and> (0::rat) \<le> 0
   \<and> duration_minutes zero_workout = Inr 0
   \<and> insert_workouts_loop accepts_all (utc_at 0) ''u'' [zero_workout] (0, fresh) = (0, fresh)"
proof -
  have t: "total_calories zero_workout = Inr (JNum 0)" by code_simp
  have n: "num_of (JNum 0) = Some 0" by (simp add: num_of_def)
  have d: "duration_minutes zero_workout = Inr 0" by code_simp
  have v: "validate_workout zero_workout_json = Inr zero_workout" by code_simp
  from zero_calorie_workout_skipped [OF t n _ d, of accepts_all "utc_at 0" "''u''" "[]" 0 fresh]
  have "insert_workouts_loop accepts_all (utc_at 0) ''u'' [zero_workout] (0, fresh) = (0, fresh)"
    by simp
  with t n d v show ?thesis by simp
qed

text \<open>
  A zero-calorie workout whose start carries an offset and whose end does not: subtracting
  them raises before the calories are looked at, and the workout is printed as an error.
\<close>

theorem zero_calorie_workout_logged:
  "validate_workout zero_workout_mixed_json = Inr zero_workout_mixed
   \<and> total_calories zero_workout_mixed = Inr (JNum 0)
   \<and> health_auto_export_webhook accepts_all True (utc_at 0) empty_store ''u''
        (envelope [] [zero_workout_mixed_json]) =
       (\<lparr>success = True, processed_metrics = 0, processed_sleep = 0, processed_workouts = 0,
         request_hash = ''success''\<rparr>,
        \<lparr>db = empty_store, logged = [WorkoutDataError]\<rparr>)"
  by code_simp

section \<open>Timestamps\<close>

lemma replace_Z_append: "replace_Z (a @ b) = replace_Z a @ replace_Z b"
  by (simp add: replace_Z_def)

lemma replace_Z_none: "CHR ''Z'' \<notin> set s \<Longrightarrow> replace_Z s = s"
  by (induction s) (auto simp: replace_Z_def)

text \<open>
  C3, as the code has it. A string is first read against the fixed pattern; when that fails
  it is read as ISO-8601 after every \<open>Z\<close> in it has been replaced by \<open>+00:00\<close> (so a string
  whose only \<open>Z\<close> is the last character gets \<open>+00:00\<close> in its place); anything that is not a
  string is returned unchanged; and \<open>2025-06-25 00:00:00 +0200\<close> and \<open>2025-06-24T22:00:00Z\<close>
  are the same instant.
\<close>

theorem timestamp_normalisation:
  "(strptime_swift s = Inr t \<longrightarrow> parse_swift_datetime (PJson (JStr s)) = Inr (PDatetime t))
   \<and> (strptime_swift s = Inl e \<longrightarrow>
        parse_swift_datetime (PJson (JStr s)) = map_sum id PDatetime (fromisoformat (replace_Z s)))
   \<and> ((\<forall>x. v \<noteq> PJson (JStr x)) \<longrightarrow> parse_swift_datetime v = Inr v)
   \<and> replace_Z (a @ ''Z'' @ b) = replace_Z a @ ''+00:00'' @ replace_Z b
   \<and> (CHR ''Z'' \<notin> set a \<longrightarrow> replace_Z a = a \<and> replace_Z (a @ ''Z'') = a @ ''+00:00'')
   \<and> (\<exists>p q. parse_swift_datetime (PJson (JStr ''2025-06-25 00:00:00 +0200'')) = Inr (PDatetime p)
          \<and> parse_swift_datetime (PJson (JStr ''2025-06-24T22:00:00Z'')) = Inr (PDatetime q)
          \<and> same_instant p q)"
proof (intro conjI impI)
  assume "strptime_swift s = Inr t"
  then show "parse_swift_datetime (PJson (JStr s)) = Inr (PDatetime t)"
    by (simp add: parse_swift_datetime_def)
next
  assume "strptime_swift s = Inl e"
  then show "parse_swift_datetime (PJson (JStr s)) =
      map_sum id PDatetime (fromisoformat (replace_Z s))"
    by (simp add: parse_swift_datetime_def split: sum.splits)
next
  assume "\<forall>x. v \<noteq> PJson (JStr x)"
  then show "parse_swift_datetime v = Inr v"
    by (auto simp: parse_swift_datetime_def split: pyval.splits json.splits)
next
  show "replace_Z (a @ ''Z'' @ b) = replace_Z a @ ''+00:00'' @ replace_Z b"
    by (simp add: replace_Z_def)
next
  assume "CHR ''Z'' \<notin> set a"
  then show "replace_Z a = a" by (rule replace_Z_none)
next
  assume "CHR ''Z'' \<notin> set a"
  then show "replace_Z (a @ ''Z'') = a @ ''+00:00''"
    by (simp add: replace_Z_append replace_Z_none) (simp add: replace_Z_def)
next
  have "parse_swift_datetime (PJson (JStr ''2025-06-25 00:00:00 +0200'')) =
      Inr (PDatetime \<lparr>local_us = 1750809600000000, utcoffset = Some 7200000000\<rparr>)"
    by code_simp
  moreover have "parse_swift_datetime (PJson (JStr ''2025-06-24T22:00:00Z'')) =
      Inr (PDatetime \<lparr>local_us = 1750802400000000, utcoffset = Some 0\<rparr>)"
    by code_simp
  moreover have "same_instant \<lparr>local_us = 1750809600000000, utcoffset = Some 7200000000\<rparr>
      \<lparr>local_us = 1750802400000000, utcoffset = Some 0\<rparr>"
    by code_simp
  ultimately show "\<exists>p q.
      parse_swift_datetime (PJson (JStr ''2025-06-25 00:00:00 +0200'')) = Inr (PDatetime p)
      \<and> parse_swift_datetime (PJson (JStr ''2025-06-24T22:00:00Z'')) = Inr (PDatetime q)
      \<and> same_instant p q"
    by blast
qed

theorem timestamp_normalisation_witness:
  "strptime_swift ''2025-07-01 06:05:54 +0200'' = Inr july_start
   \<and> parse_swift_datetime (PJson (JStr ''2025-07-01 06:05:54 +0200'')) = Inr (PDatetime july_start)
   \<and> strptime_swift ''2025-06-24T22:00:00Z'' = Inl ValueError
   \<and> parse_swift_datetime (PJson (JStr ''2025-06-24T22:00:00Z'')) =
       map_sum id PDatetime (fromisoformat (replace_Z ''2025-06-24T22:00:00Z''))
   \<and> (\<forall>x. PDatetime july_start \<noteq> PJson (JStr x))
   \<and> parse_swift_datetime (PDatetime july_start) = Inr (PDatetime july_start)
   \<and> CHR ''Z'' \<notin> set ''2025-06-24T22:00:00''
   \<and> replace_Z (''2025-06-24T22:00:00'' @ ''Z'') = ''2025-06-24T22:00:00'' @ ''+00:00''"
proof -
  have s1: "strptime_swift ''2025-07-01 06:05:54 +0200'' = Inr july_start" by code_simp
  have s2: "strptime_swift ''2025-06-24T22:00:00Z'' = Inl ValueError" by code_simp
  have n: "\<forall>x. PDatetime july_start \<noteq> PJson (JStr x)" by simp
  have z: "CHR ''Z'' \<notin> set ''2025-06-24T22:00:00''" by simp
  note a = timestamp_normalisation [of "''2025-07-01 06:05:54 +0200''" july_start _
      "PDatetime july_start" "''2025-06-24T22:00:00''"]
  note b = timestamp_normalisation [of "''2025-06-24T22:00:00Z''" _ ValueError]
  from a s1 have r1: "parse_swift_datetime (PJson (JStr ''2025-07-01 06:05:54 +0200'')) =
      Inr (PDatetime july_start)"
    by blast
  from b s2 have r2: "parse_swift_datetime (PJson (JStr ''2025-06-24T22:00:00Z'')) =
       map_sum id PDatetime (fromisoformat (replace_Z ''2025-06-24T22:00:00Z''))"
    by blast
  from a n have r3: "parse_swift_datetime (PDatetime july_start) = Inr (PDatetime july_start)"
    by blast
  from a z have r4: "replace_Z (''2025-06-24T22:00:00'' @ ''Z'') = ''2025-06-24T22:00:00'' @ ''+00:00''"
    by blast
  from s1 s2 n z r1 r2 r3 r4 show ?thesis by (intro conjI)
qed

text \<open>
  A \<open>Z\<close> that is not the last character is replaced as well: \<open>2025-06-24T22:00Z:00\<close> is
  accepted as 22:00 at offset zero, where replacing only a trailing \<open>Z\<close> leaves a string
  that is not ISO-8601.
\<close>

theorem inner_Z_replaced:
  "parse_swift_datetime (PJson (JStr ''2025-06-24T22:00Z:00'')) =
      Inr (PDatetime \<lparr>local_us = 1750802400000000, utcoffset = Some 0\<rparr>)
   \<and> spec_normalize (PJson (JStr ''2025-06-24T22:00Z:00'')) = Inl ValueError"
  by code_simp

section \<open>Re-delivery\<close>

text \<open>
  What a sequence of attempted statements does to the tables: rows are only appended, a
  statement that has been attempted once is absorbed from then on, and a sequence of absorbed
  statements changes nothing.
\<close>

lemma same_instant_refl: "same_instant a a"
  by (cases "utcoffset a") (simp_all add: same_instant_def dt_sub_def)

lemma attempt_absorbed: "absorbed rf s q \<Longrightarrow> attempt rf q s = s"
  by (cases q) (auto simp: absorbed_def attempt_def execute_def)

lemma absorbed_attempt_self: "absorbed rf (attempt rf q s) q"
  by (cases q)
     (auto simp: absorbed_def attempt_def execute_def list_ex_iff health_conflict_def
        sleep_conflict_def same_instant_refl)

lemma absorbed_attempt_mono: "absorbed rf s q' \<Longrightarrow> absorbed rf (attempt rf q s) q'"
  by (cases q; cases q')
     (auto simp: absorbed_def attempt_def execute_def list_ex_iff)

lemma replay_absorbed: "\<forall>q\<in>set qs. absorbed rf s q \<Longrightarrow> replay rf qs s = s"
  unfolding replay_def by (induction qs) (simp_all add: attempt_absorbed)

lemma absorbed_replay_mono: "absorbed rf s q \<Longrightarrow> absorbed rf (replay rf qs s) q"
  unfolding replay_def by (induction qs arbitrary: s) (simp_all add: absorbed_attempt_mono)

lemma replay_absorbs: "\<forall>q\<in>set qs. absorbed rf (replay rf qs s) q"
proof (induction qs arbitrary: s)
  case Nil
  then show ?case by simp
next
  case (Cons q qs)
  have "absorbed rf (replay rf qs (attempt rf q s)) q"
    by (rule absorbed_replay_mono) (rule absorbed_attempt_self)
  with Cons show ?case by (simp add: replay_def)
qed

lemma replay_idem: "replay rf qs (replay rf qs s) = replay rf qs s"
  by (rule replay_absorbed) (rule replay_absorbs)

lemma replay_append: "replay rf (qs @ qs') s = replay rf qs' (replay rf qs s)"
  by (simp add: replay_def)

lemma attempt_grows:
  "\<exists>a b. health_metrics (attempt rf q s) = health_metrics s @ a
       \<and> sleep_metrics (attempt rf q s) = sleep_metrics s @ b"
  by (cases q) (auto simp: attempt_def execute_def)

lemma replay_grows:
  "\<exists>a b. health_metrics (replay rf qs s) = health_metrics s @ a
       \<and> sleep_metrics (replay rf qs s) = sleep_metrics s @ b"
proof (induction qs arbitrary: s)
  case Nil
  then show ?case by (simp add: replay_def)
next
  case (Cons q qs)
  from attempt_grows [of rf q s] obtain a b where
    1: "health_metrics (attempt rf q s) = health_metrics s @ a"
       "sleep_metrics (attempt rf q s) = sleep_metrics s @ b" by blast
  from Cons [of "attempt rf q s"] obtain a' b' where
    2: "health_metrics (replay rf qs (attempt rf q s)) = health_metrics (attempt rf q s) @ a'"
       "sleep_metrics (replay rf qs (attempt rf q s)) = sleep_metrics (attempt rf q s) @ b'" by blast
  from 1 2 show ?case by (simp add: replay_def)
qed

text \<open>
  Each loop of the ingestion adds to its counter a number, runs a sequence of attempted
  statements and prints a sequence of errors, none of which depends on the tables it starts
  from.
\<close>

lemma insert_points_trace:
  "\<exists>L. \<forall>n c. insert_points rf u m ps (n, c) =
      (n + length (filter (\<lambda>q. \<not> rf q) (map (\<lambda>p. InsertHealth (health_row_of u m p)) ps)),
       \<lparr>db = replay rf (map (\<lambda>p. InsertHealth (health_row_of u m p)) ps) (db c),
        logged = logged c @ L\<rparr>)"
proof (induction ps)
  case Nil
  show ?case by (rule exI [of _ "[]"]) (simp add: replay_def)
next
  case (Cons p ps)
  then obtain L where L: "\<And>n c. insert_points rf u m ps (n, c) =
      (n + length (filter (\<lambda>q. \<not> rf q) (map (\<lambda>p. InsertHealth (health_row_of u m p)) ps)),
       \<lparr>db = replay rf (map (\<lambda>p. InsertHealth (health_row_of u m p)) ps) (db c),
        logged = logged c @ L\<rparr>)" by blast
  show ?case
  proof (cases "rf (InsertHealth (health_row_of u m p))")
    case True
    then show ?thesis
      by (intro exI [of _ "HealthMetricError (cm_name m) # L"])
         (simp add: L execute_def replay_def attempt_def)
  next
    case False
    then show ?thesis
      by (intro exI [of _ L])
         (auto simp add: L execute_def replay_def attempt_def)
  qed
qed

lemma insert_metrics_loop_trace:
  "\<exists>L. \<forall>n c. insert_metrics_loop rf u ms (n, c) =
      (n + length (filter (\<lambda>q. \<not> rf q) (concat (map (point_stmts u) ms))),
       \<lparr>db = replay rf (concat (map (point_stmts u) ms)) (db c), logged = logged c @ L\<rparr>)"
proof (induction ms)
  case Nil
  show ?case by (rule exI [of _ "[]"]) (simp add: replay_def)
next
  case (Cons m ms)
  then obtain L where L: "\<And>n c. insert_metrics_loop rf u ms (n, c) =
      (n + length (filter (\<lambda>q. \<not> rf q) (concat (map (point_stmts u) ms))),
       \<lparr>db = replay rf (concat (map (point_stmts u) ms)) (db c), logged = logged c @ L\<rparr>)"
    by blast
  from insert_points_trace [of rf u m "cm_data m"] obtain L' where
    L': "\<And>n c. insert_points rf u m (cm_data m) (n, c) =
      (n + length (filter (\<lambda>q. \<not> rf q) (point_stmts u m)),
       \<lparr>db = replay rf (point_stmts u m) (db c), logged = logged c @ L'\<rparr>)"
    unfolding point_stmts_def by blast
  show ?case
    by (intro exI [of _ "L' @ L"]) (simp add: L L' replay_append)
qed

lemma insert_sleep_entries_trace:
  "\<exists>L. \<forall>n c. insert_sleep_entries rf u es (n, c) =
      (n + length (filter (\<lambda>q. \<not> rf q) (sleep_stmts u es)),
       \<lparr>db = replay rf (sleep_stmts u es) (db c), logged = logged c @ L\<rparr>)"
proof (induction es)
  case Nil
  show ?case by (rule exI [of _ "[]"]) (simp add: replay_def sleep_stmts_def)
next
  case (Cons e es)
  then obtain L where L: "\<And>n c. insert_sleep_entries rf u es (n, c) =
      (n + length (filter (\<lambda>q. \<not> rf q) (sleep_stmts u es)),
       \<lparr>db = replay rf (sleep_stmts u es) (db c), logged = logged c @ L\<rparr>)" by blast
  have st: "sleep_stmts u (e # es) =
      (case sleep_row_of u e of Inr r \<Rightarrow> [InsertSleep r] | Inl _ \<Rightarrow> []) @ sleep_stmts u es"
    by (simp add: sleep_stmts_def)
  show ?case
  proof (cases "sleep_row_of u e")
    case (Inl err)
    then show ?thesis
      by (intro exI [of _ "SleepDataError # L"]) (simp add: L st bind_err_def)
  next
    case (Inr r)
    show ?thesis
    proof (cases "rf (InsertSleep r)")
      case True
      with Inr show ?thesis
        by (intro exI [of _ "SleepDataError # L"])
           (simp add: L st bind_err_def execute_def replay_def attempt_def)
    next
      case False
      with Inr show ?thesis
        by (intro exI [of _ L])
           (auto simp add: L st bind_err_def execute_def replay_def attempt_def)
    qed
  qed
qed

lemma execute_accepts: "\<not> rf q \<Longrightarrow> execute rf s q = Inr (attempt rf q s)"
  by (cases q) (simp_all add: attempt_def execute_def)

lemma execute_refuses: "rf q \<Longrightarrow> execute rf s q = Inl StorageError"
  by (simp add: execute_def)

lemma insert_workout_cases:
  "(\<exists>e. \<forall>c. insert_workout rf now u w c = Inl e)
   \<or> (\<forall>c. insert_workout rf now u w c = Inr (0, c))
   \<or> (\<exists>q. \<forall>c. insert_workout rf now u w c = Inr (1, c\<lparr>db := attempt rf q (db c)\<rparr>))"
proof (cases "total_calories w")
  case (Inl e)
  then show ?thesis by (simp add: insert_workout_def bind_err_def)
next
  case cal: (Inr cal)
  show ?thesis
  proof (cases "duration_minutes w")
    case (Inl e)
    with cal show ?thesis by (simp add: insert_workout_def bind_err_def)
  next
    case dur: (Inr dm)
    show ?thesis
    proof (cases "py_gt0 cal")
      case (Inl e)
      with cal dur show ?thesis by (simp add: insert_workout_def bind_err_def)
    next
      case pos: (Inr positive)
      let ?q = "InsertHealth \<lparr>hr_user = u, hr_name = ''workout'', hr_unit = ''cal'',
                  hr_timestamp = workout_timestamp now w, hr_value = the (num_of cal)\<rparr>"
      show ?thesis
      proof (cases positive)
        case False
        with cal dur pos show ?thesis by (simp add: insert_workout_def bind_err_def)
      next
        case True
        show ?thesis
        proof (cases "rf ?q")
          case r: True
          with cal dur pos True have "\<forall>c. insert_workout rf now u w c = Inl StorageError"
            by (simp add: insert_workout_def bind_err_def execute_refuses)
          then show ?thesis by blast
        next
          case r: False
          with cal dur pos True
          have "\<forall>c. insert_workout rf now u w c = Inr (1, c\<lparr>db := attempt rf ?q (db c)\<rparr>)"
            by (simp add: insert_workout_def bind_err_def execute_accepts)
          then show ?thesis by blast
        qed
      qed
    qed
  qed
qed

lemma insert_workouts_loop_trace:
  "\<exists>K Q L. \<forall>n c. insert_workouts_loop rf now u ws (n, c) =
      (n + K, \<lparr>db = replay rf Q (db c), logged = logged c @ L\<rparr>)"
proof (induction ws)
  case Nil
  show ?case by (intro exI [of _ 0] exI [of _ "[]"]) (simp add: replay_def)
next
  case (Cons w ws)
  then obtain K Q L where L: "\<And>n c. insert_workouts_loop rf now u ws (n, c) =
      (n + K, \<lparr>db = replay rf Q (db c), logged = logged c @ L\<rparr>)" by blast
  from insert_workout_cases [of rf now u w]
  consider (err) e where "\<forall>c. insert_workout rf now u w c = Inl e"
    | (skip) "\<forall>c. insert_workout rf now u w c = Inr (0, c)"
    | (ins) q where "\<forall>c. insert_workout rf now u w c = Inr (1, c\<lparr>db := attempt rf q (db c)\<rparr>)"
    by blast
  then show ?case
  proof cases
    case err
    then have "\<forall>n c. insert_workouts_loop rf now u (w # ws) (n, c) =
      (n + K, \<lparr>db = replay rf Q (db c), logged = logged c @ (WorkoutDataError # L)\<rparr>)"
      by (simp add: L)
    then show ?thesis by blast
  next
    case skip
    then have "\<forall>n c. insert_workouts_loop rf now u (w # ws) (n, c) =
      (n + K, \<lparr>db = replay rf Q (db c), logged = logged c @ L\<rparr>)"
      by (simp add: L)
    then show ?thesis by blast
  next
    case ins
    then have "\<forall>n c. insert_workouts_loop rf now u (w # ws) (n, c) =
      (n + (1 + K), \<lparr>db = replay rf (q # Q) (db c), logged = logged c @ L\<rparr>)"
      by (simp add: L replay_def)
    then show ?thesis by blast
  qed
qed

lemma process_metrics_trace:
  "\<exists>Km Ks Q L. \<forall>nm ns c. process_metrics rf u ms ((nm, ns), c) =
      ((nm + Km, ns + Ks), \<lparr>db = replay rf Q (db c), logged = logged c @ L\<rparr>)"
proof (induction ms)
  case Nil
  show ?case by (intro exI [of _ 0] exI [of _ "[]"]) (simp add: replay_def)
next
  case (Cons m ms)
  then obtain Km Ks Q L where L: "\<And>nm ns c. process_metrics rf u ms ((nm, ns), c) =
      ((nm + Km, ns + Ks), \<lparr>db = replay rf Q (db c), logged = logged c @ L\<rparr>)" by blast
  show ?case
  proof (cases m)
    case (SleepM sm)
    from insert_sleep_entries_trace [of rf u "sm_data sm"] obtain L' where
      L': "\<And>n c. insert_sleep_entries rf u (sm_data sm) (n, c) =
        (n + length (filter (\<lambda>q. \<not> rf q) (sleep_stmts u (sm_data sm))),
         \<lparr>db = replay rf (sleep_stmts u (sm_data sm)) (db c), logged = logged c @ L'\<rparr>)"
      by blast
    have "\<forall>nm ns c. process_metrics rf u (m # ms) ((nm, ns), c) =
      ((nm + Km, ns + (length (filter (\<lambda>q. \<not> rf q) (sleep_stmts u (sm_data sm))) + Ks)),
       \<lparr>db = replay rf (sleep_stmts u (sm_data sm) @ Q) (db c), logged = logged c @ (L' @ L)\<rparr>)"
      using SleepM
      by (simp add: metric_name_def insert_sleep_metrics_from_analysis_def L L' replay_append)
    then show ?thesis by blast
  next
    case (CommonM cm)
    show ?thesis
    proof (cases "cm_name cm = ''sleep_analysis''")
      case True
      have "\<forall>nm ns c. process_metrics rf u (m # ms) ((nm, ns), c) =
        ((nm + Km, ns + Ks),
         \<lparr>db = replay rf Q (db c),
          logged = logged c @ (replicate (length (cm_data cm)) SleepDataError @ L)\<rparr>)"
        using CommonM True
        by (simp add: metric_name_def insert_sleep_metrics_from_analysis_def L)
      then show ?thesis by blast
    next
      case False
      from insert_points_trace [of rf u cm "cm_data cm"] obtain L' where
        L': "\<And>n c. insert_points rf u cm (cm_data cm) (n, c) =
          (n + length (filter (\<lambda>q. \<not> rf q) (point_stmts u cm)),
           \<lparr>db = replay rf (point_stmts u cm) (db c), logged = logged c @ L'\<rparr>)"
        unfolding point_stmts_def by blast
      have "\<forall>nm ns c. process_metrics rf u (m # ms) ((nm, ns), c) =
        ((nm + (length (filter (\<lambda>q. \<not> rf q) (point_stmts u cm)) + Km), ns + Ks),
         \<lparr>db = replay rf (point_stmts u cm @ Q) (db c), logged = logged c @ (L' @ L)\<rparr>)"
        using CommonM False
        by (simp add: metric_name_def insert_health_metrics_def L L' replay_append)
      then show ?thesis by blast
    qed
  qed
qed

lemma webhook_trace:
  "\<exists>r Q L. \<forall>s. health_auto_export_webhook rf cn now s u raw =
      (r, \<lparr>db = replay rf Q s, logged = L\<rparr>)"
proof (cases "validate_payload raw")
  case (Inl e)
  then have "\<forall>s. health_auto_export_webhook rf cn now s u raw =
      (failure_response, \<lparr>db = replay rf [] s, logged = []\<rparr>)"
    by (simp add: health_auto_export_webhook_def replay_def)
  then show ?thesis by blast
next
  case (Inr pl)
  show ?thesis
  proof (cases cn)
    case False
    with Inr have "\<forall>s. health_auto_export_webhook rf cn now s u raw =
      (failure_response, \<lparr>db = replay rf [] s, logged = []\<rparr>)"
      by (simp add: health_auto_export_webhook_def replay_def)
    then show ?thesis by blast
  next
    case True
    from process_metrics_trace [of rf u "metrics (pl_data pl)"] obtain Km Ks Q L where
      m: "\<And>nm ns c. process_metrics rf u (metrics (pl_data pl)) ((nm, ns), c) =
        ((nm + Km, ns + Ks), \<lparr>db = replay rf Q (db c), logged = logged c @ L\<rparr>)" by blast
    from insert_workouts_loop_trace [of rf now u "workouts (pl_data pl)"] obtain K Q' L' where
      w: "\<And>n c. insert_workouts_loop rf now u (workouts (pl_data pl)) (n, c) =
        (n + K, \<lparr>db = replay rf Q' (db c), logged = logged c @ L'\<rparr>)" by blast
    show ?thesis
    proof (cases "workouts (pl_data pl) = []")
      case e: True
      have "\<forall>s. health_auto_export_webhook rf cn now s u raw =
        (\<lparr>success = True, processed_metrics = Km, processed_sleep = Ks,
          processed_workouts = 0, request_hash = ''success''\<rparr>,
         \<lparr>db = replay rf Q s, logged = L\<rparr>)"
        using Inr True e by (simp add: health_auto_export_webhook_def m)
      then show ?thesis by blast
    next
      case e: False
      have "\<forall>s. health_auto_export_webhook rf cn now s u raw =
        (\<lparr>success = True, processed_metrics = Km, processed_sleep = Ks,
          processed_workouts = K, request_hash = ''success''\<rparr>,
         \<lparr>db = replay rf (Q @ Q') s, logged = L @ L'\<rparr>)"
        using Inr True e
        by (simp add: health_auto_export_webhook_def m w insert_workout_metrics_def replay_append)
      then show ?thesis by blast
    qed
  qed
qed

section \<open>Malformed data points\<close>











section \<open>Delivering a payload twice\<close>

text \<open>
  C2. Inserting the same common metrics a second time leaves the tables as the first
  insertion left them; the first insertion only appends to the rows it found; a statement
  whose natural key is stored already leaves the tables untouched; and the same holds for
  the endpoint called twice with the same payload.
\<close>

theorem insert_health_metrics_idempotent:
  "db (snd (insert_health_metrics rf (snd (insert_health_metrics rf c u ms)) u ms)) =
     db (snd (insert_health_metrics rf c u ms))
   \<and> (\<exists>rows. health_metrics (db (snd (insert_health_metrics rf c u ms))) =
               health_metrics (db c) @ rows)
   \<and> (\<not> rf (InsertHealth r) \<and> list_ex (health_conflict r) (health_metrics s)
        \<longrightarrow> execute rf s (InsertHealth r) = Inr s)
   \<and> (health_auto_export_webhook rf cn now s u raw = (resp, c')
        \<longrightarrow> db (snd (health_auto_export_webhook rf cn now (db c') u raw)) = db c')"
proof (intro conjI impI)
  from insert_metrics_loop_trace [of rf u ms] obtain L where
    t: "\<And>n c. insert_metrics_loop rf u ms (n, c) =
      (n + length (filter (\<lambda>q. \<not> rf q) (concat (map (point_stmts u) ms))),
       \<lparr>db = replay rf (concat (map (point_stmts u) ms)) (db c), logged = logged c @ L\<rparr>)"
    by blast
  show "db (snd (insert_health_metrics rf (snd (insert_health_metrics rf c u ms)) u ms)) =
     db (snd (insert_health_metrics rf c u ms))"
    by (simp add: insert_health_metrics_def t replay_idem)
  from replay_grows [of rf "concat (map (point_stmts u) ms)" "db c"]
  show "\<exists>rows. health_metrics (db (snd (insert_health_metrics rf c u ms))) =
               health_metrics (db c) @ rows"
    by (auto simp: insert_health_metrics_def t)
next
  assume "\<not> rf (InsertHealth r) \<and> list_ex (health_conflict r) (health_metrics s)"
  then show "execute rf s (InsertHealth r) = Inr s" by (simp add: execute_def)
next
  assume a: "health_auto_export_webhook rf cn now s u raw = (resp, c')"
  from webhook_trace [of rf cn now u raw] obtain r' Q L where
    t: "\<And>s. health_auto_export_webhook rf cn now s u raw =
          (r', \<lparr>db = replay rf Q s, logged = L\<rparr>)"
    by blast
  from a t [of s] have "c' = \<lparr>db = replay rf Q s, logged = L\<rparr>" by simp
  then show "db (snd (health_auto_export_webhook rf cn now (db c') u raw)) = db c'"
    by (simp add: t replay_idem)
qed

theorem insert_health_metrics_idempotent_witness:
  "length (health_metrics (db (snd (insert_health_metrics accepts_all fresh ''u'' [hrv_ten])))) = 10
   \<and> db (snd (insert_health_metrics accepts_all
            (snd (insert_health_metrics accepts_all fresh ''u'' [hrv_ten])) ''u'' [hrv_ten])) =
       db (snd (insert_health_metrics accepts_all fresh ''u'' [hrv_ten]))
   \<and> \<not> accepts_all (InsertHealth (health_row_of ''u'' hrv_block \<lparr>cp_date = july_start, cp_qty = 7\<rparr>))
   \<and> list_ex (health_conflict (health_row_of ''u'' hrv_block \<lparr>cp_date = july_start, cp_qty = 7\<rparr>))
        (health_metrics (db (snd (insert_health_metrics accepts_all fresh ''u'' [hrv_block]))))
   \<and> execute accepts_all (db (snd (insert_health_metrics accepts_all fresh ''u'' [hrv_block])))
        (InsertHealth (health_row_of ''u'' hrv_block \<lparr>cp_date = july_start, cp_qty = 7\<rparr>)) =
       Inr (db (snd (insert_health_metrics accepts_all fresh ''u'' [hrv_block])))
   \<and> db (snd (health_auto_export_webhook accepts_all True (utc_at 0)
         (db (snd (health_auto_export_webhook accepts_all True (utc_at 0) empty_store ''u''
                      (envelope [hrv_block_json] [])))) ''u'' (envelope [hrv_block_json] []))) =
       db (snd (health_auto_export_webhook accepts_all True (utc_at 0) empty_store ''u''
                      (envelope [hrv_block_json] [])))"
proof -
  let ?r = "health_row_of ''u'' hrv_block \<lparr>cp_date = july_start, cp_qty = 7\<rparr>"
  let ?s = "db (snd (insert_health_metrics accepts_all fresh ''u'' [hrv_block]))"
  let ?W = "health_auto_export_webhook accepts_all True (utc_at 0) empty_store ''u''
                      (envelope [hrv_block_json] [])"
  have n: "length (health_metrics (db (snd (insert_health_metrics accepts_all fresh ''u'' [hrv_ten])))) = 10"
    by code_simp
  have a: "\<not> accepts_all (InsertHealth ?r)" by (simp add: accepts_all_def)
  have k: "list_ex (health_conflict ?r) (health_metrics ?s)" by code_simp
  note i = insert_health_metrics_idempotent [of accepts_all fresh "''u''" "[hrv_ten]"]
  note j = insert_health_metrics_idempotent [where rf = accepts_all and r = ?r and s = ?s,
      THEN conjunct2, THEN conjunct2, THEN conjunct1, THEN mp, OF conjI, OF a k]
  have w: "?W = (fst ?W, snd ?W)" by simp
  note e = insert_health_metrics_idempotent [where rf = accepts_all and cn = True
      and now = "utc_at 0" and s = empty_store and u = "''u''"
      and raw = "envelope [hrv_block_json] []", THEN conjunct2, THEN conjunct2, THEN conjunct2,
      THEN mp, OF w]
  from n i a k j e show ?thesis by (intro conjI) blast+
qed



end
